theory Spec2Isabelle
  imports Main "HOL-Library.AList"
begin

section \<open>The hotload driver: data model\<close>

text \<open>
  The embedding follows \<^verbatim>\<open>driver.go\<close>. Go maps with string keys that the code iterates
  or measures (\<^verbatim>\<open>map[string]string\<close>, \<^verbatim>\<open>url.Values\<close>) are association lists read
  with \<open>map_of\<close> and written with \<open>AList.update\<close>; the registries, which are only looked
  up and assigned, are partial functions. Pointers (\<^verbatim>\<open>*chanGroup\<close>, \<^verbatim>\<open>*managedConn\<close>) are
  addresses into two typed heaps held by the state, so that a monitor mutated through one
  pointer is seen through every other. A method that holds its receiver's mutex for its whole
  body is one atomic state transformer; the mutexes themselves are not modelled, and a slice
  is the list of its elements.
\<close>

subsection \<open>Errors and connections\<close>

text \<open>
  The three sentinel errors of the package, the error of \<^verbatim>\<open>url.Parse\<close> handed on as it
  is, the errors built by \<^verbatim>\<open>fmt.Errorf(format, err)\<close>, and the errors of strategies and
  drivers.
\<close>

datatype error =
    ErrUnsupportedStrategy
  | ErrMalformedConnectionString
  | ErrUnknownDriver
  | UrlError string
  | Errorf string string
  | Foreign string

text \<open>
  A connection of an underlying driver is an object of foreign code: it is known by an
  identity and by what its \<^verbatim>\<open>Close\<close> answers.
\<close>

datatype driver_Conn = Conn (conn_id: nat) (Close_result: "error option")

text \<open>The value of interface type \<^verbatim>\<open>driver.Conn\<close> that an \<^verbatim>\<open>Open\<close> returns.\<close>

datatype Conn_value = RawConn driver_Conn | ManagedConn nat

subsection \<open>The package net/url, as a parameter\<close>

type_synonym url_Values = "(string \<times> string list) list"

record URL =
  Scheme :: string
  Host :: string
  Path :: string
  RawQuery :: string

text \<open>
  The functions of the standard library that the driver calls. \<open>ParseQuery\<close> returns the
  values read so far together with the first error, as the Go function does.
\<close>

record net_url =
  Parse :: "string \<Rightarrow> string + URL"
  ParseRequestURI :: "string \<Rightarrow> string + URL"
  ParseQuery :: "string \<Rightarrow> url_Values \<times> string option"
  Encode :: "url_Values \<Rightarrow> string"
  URL_String :: "URL \<Rightarrow> string"

text \<open>\<^verbatim>\<open>func (u *URL) Query() Values\<close> parses \<^verbatim>\<open>RawQuery\<close> and drops the error.\<close>

definition URL_Query :: "net_url \<Rightarrow> URL \<Rightarrow> url_Values" where
  "URL_Query U u = fst (ParseQuery U (RawQuery u))"

text \<open>\<^verbatim>\<open>func (v Values) Set(key, value string)\<close> is \<^verbatim>\<open>v[key] = []string{value}\<close>.\<close>

definition Values_Set :: "url_Values \<Rightarrow> string \<Rightarrow> string \<Rightarrow> url_Values" where
  "Values_Set v key val = AList.update key [val] v"

subsection \<open>Calls that leave the package\<close>

text \<open>
  Every call into foreign code (a strategy's \<^verbatim>\<open>Watch\<close>, a driver's \<^verbatim>\<open>Open\<close>, the
  \<^verbatim>\<open>Close\<close> of an underlying connection, a cancel function, the logger, the start of a
  goroutine) is appended to a trace. A strategy and a driver answer as a function of the
  trace so far and of their arguments, so they may answer differently from call to call.
\<close>

datatype event =
    EvWatch string nat string url_Values
  | EvDriverOpen string
  | EvConnClose nat "driver_Conn option"
  | EvCancel nat
  | EvGo nat
  | EvLog string
  | EvLogValues string url_Values

type_synonym Strategy =
  "event list \<Rightarrow> nat \<Rightarrow> string \<Rightarrow> url_Values \<Rightarrow> error + (string \<times> nat)"

type_synonym driver_Driver =
  "event list \<Rightarrow> string \<Rightarrow> driver_Conn option \<times> error option"

subsection \<open>The structs\<close>

record driverInstance =
  driver :: driver_Driver
  options :: "(string \<times> string) list"

record chanGroup =
  cur_value :: string
  values_chan :: nat
  parentCtx :: nat
  ctx :: nat
  cancel :: nat
  sqlDriver :: driverInstance
  forceKill :: bool
  conns :: "nat list"

text \<open>
  Modelled from the spec: the connection wrapper \<^verbatim>\<open>managedConn\<close>, whose file is not among the
  sources. The spec gives it the underlying connection, a back-reference to the owning
  monitor used to notify removal on close, and the invalidation flag; \<^verbatim>\<open>chanGroup.Open\<close>
  passes it the monitor's active scope, the raw connection and the bound method
  \<^verbatim>\<open>cg.remove\<close>, which is kept here as the address of its receiver.
\<close>

record managedConn =
  mc_ctx :: nat
  mc_conn :: "driver_Conn option"
  afterClose :: nat
  invalidated :: bool

text \<open>
  The state: the package variables \<^verbatim>\<open>sqlDrivers\<close> and \<^verbatim>\<open>strategies\<close>, the one
  \<^verbatim>\<open>hdriver\<close> that \<^verbatim>\<open>init\<close> registers (its scope and its monitor table), the two heaps,
  the next free address and scope, and the trace.
\<close>

record world =
  sqlDrivers :: "string \<rightharpoonup> driverInstance"
  strategies :: "string \<rightharpoonup> Strategy"
  h_ctx :: nat
  h_cgroup :: "string \<rightharpoonup> nat"
  chanGroups :: "nat \<Rightarrow> chanGroup"
  managedConns :: "nat \<Rightarrow> managedConn"
  next_ptr :: nat
  next_ctx :: nat
  trace :: "event list"

definition emit :: "event \<Rightarrow> world \<Rightarrow> world" where
  "emit e w = w\<lparr>trace := trace w @ [e]\<rparr>"

text \<open>\<^verbatim>\<open>context.WithCancel(parent)\<close>: a fresh scope; its cancel function is named by it.\<close>

definition WithCancel :: "nat \<Rightarrow> world \<Rightarrow> nat \<times> world" where
  "WithCancel parent w = (next_ctx w, w\<lparr>next_ctx := Suc (next_ctx w)\<rparr>)"

definition forceKill_key :: string where
  "forceKill_key = ''forceKill''"

section \<open>The registries\<close>

text \<open>
  \<^verbatim>\<open>WithDriverOptions(options)\<close> returns the function that copies \<open>options\<close> into the
  instance's map, key by key. A nil map and an empty map are both the empty list.
\<close>

definition WithDriverOptions ::
  "(string \<times> string) list \<Rightarrow> driverInstance \<Rightarrow> driverInstance" where
  "WithDriverOptions opts d =
     d\<lparr>options := fold (\<lambda>(k, v) m. AList.update k v m) opts (options d)\<rparr>"

text \<open>
  \<^verbatim>\<open>RegisterSQLDriver\<close> and \<^verbatim>\<open>RegisterStrategy\<close>: \<open>Inl\<close> is the panic with its message,
  \<open>None\<close> the nil argument. An option is a function on instances, as
  \<^verbatim>\<open>WithDriverOptions\<close> returns them (the type \<^verbatim>\<open>driverOption\<close> is not exported, and the
  package has no other way to build one).
\<close>

definition RegisterSQLDriver ::
  "string \<Rightarrow> driver_Driver option \<Rightarrow> (driverInstance \<Rightarrow> driverInstance) list
     \<Rightarrow> world \<Rightarrow> string + world" where
  "RegisterSQLDriver name drv opts w =
     (case drv of
        None \<Rightarrow> Inl ''hotload: Register driver is nil''
      | Some d \<Rightarrow>
          (case sqlDrivers w name of
             Some dup \<Rightarrow> Inl (''hotload: Register called twice for driver '' @ name)
           | None \<Rightarrow>
               (let di = fold (\<lambda>opt di. opt di) opts \<lparr>driver = d, options = []\<rparr>
                in Inr (w\<lparr>sqlDrivers := (sqlDrivers w)(name \<mapsto> di)\<rparr>))))"

definition RegisterStrategy :: "string \<Rightarrow> Strategy option \<Rightarrow> world \<Rightarrow> string + world" where
  "RegisterStrategy name strategy w =
     (case strategy of
        None \<Rightarrow> Inl ''hotload: RegisterStrategy strategy is nil''
      | Some s \<Rightarrow>
          (case strategies w name of
             Some dup \<Rightarrow> Inl (''hotload: RegisterStrategy called twice for strategy '' @ name)
           | None \<Rightarrow> Inr (w\<lparr>strategies := (strategies w)(name \<mapsto> s)\<rparr>)))"

section \<open>The monitor\<close>

text \<open>
  \<^verbatim>\<open>chanGroup.remove\<close> deletes the first element of \<^verbatim>\<open>cg.conns\<close> equal to the connection
  and returns; a connection that is not there changes nothing.
\<close>

definition chanGroup_remove :: "nat \<Rightarrow> nat \<Rightarrow> world \<Rightarrow> world" where
  "chanGroup_remove p conn w =
     w\<lparr>chanGroups := (chanGroups w)(p := (chanGroups w p)\<lparr>conns := remove1 conn (conns (chanGroups w p))\<rparr>)\<rparr>"

text \<open>
  Modelled from the spec: \<^verbatim>\<open>newManagedConn\<close>, which is not among the sources. It
  binds the wrapper to the scope, the raw connection and the callback it is given; a new
  wrapper is not invalidated.
\<close>

definition newManagedConn :: "nat \<Rightarrow> driver_Conn option \<Rightarrow> nat \<Rightarrow> managedConn" where
  "newManagedConn c conn after =
     \<lparr>mc_ctx = c, mc_conn = conn, afterClose = after, invalidated = False\<rparr>"

text \<open>
  Modelled from the spec: \<^verbatim>\<open>managedConn.Reset\<close>, which is not among the sources. It
  sets the invalidation flag.
\<close>

definition managedConn_Reset :: "nat \<Rightarrow> bool \<Rightarrow> world \<Rightarrow> world" where
  "managedConn_Reset c v w =
     w\<lparr>managedConns := (managedConns w)(c := (managedConns w c)\<lparr>invalidated := v\<rparr>)\<rparr>"

text \<open>
  Modelled from the spec: \<^verbatim>\<open>managedConn.Close\<close>, which is not among the sources. It
  removes the wrapper from the owning monitor's outstanding connections through the
  callback (a second close changes nothing there) and closes the underlying connection,
  whose answer it returns.
\<close>

definition managedConn_Close :: "nat \<Rightarrow> world \<Rightarrow> error option \<times> world" where
  "managedConn_Close c w =
     (let m = managedConns w c;
          w1 = chanGroup_remove (afterClose m) c w
      in (case mc_conn m of None \<Rightarrow> None | Some raw \<Rightarrow> Close_result raw,
          emit (EvConnClose c (mc_conn m)) w1))"

text \<open>
  \<^verbatim>\<open>resetConnections\<close>: the loop ranges over the connections the monitor holds when the
  loop starts; each is reset and, when \<^verbatim>\<open>cg.forceKill\<close> is set, closed, the error of the
  close being dropped. Then the monitor holds a new, empty slice.
\<close>

definition resetConnections_body :: "nat \<Rightarrow> nat \<Rightarrow> world \<Rightarrow> world" where
  "resetConnections_body p c w =
     (let w' = managedConn_Reset c True w
      in if forceKill (chanGroups w' p) then snd (managedConn_Close c w') else w')"

definition resetConnections :: "nat \<Rightarrow> world \<Rightarrow> world" where
  "resetConnections p w =
     (let w1 = fold (resetConnections_body p) (conns (chanGroups w p)) w
      in w1\<lparr>chanGroups := (chanGroups w1)(p := (chanGroups w1 p)\<lparr>conns := []\<rparr>)\<rparr>)"

definition valueChanged :: "nat \<Rightarrow> string \<Rightarrow> world \<Rightarrow> world" where
  "valueChanged p v w =
     (let w1 = emit (EvCancel (cancel (chanGroups w p))) w;
          (c, w2) = WithCancel (parentCtx (chanGroups w1 p)) w1;
          w3 = w2\<lparr>chanGroups := (chanGroups w2)(p := (chanGroups w2 p)\<lparr>ctx := c, cancel := c\<rparr>)\<rparr>;
          w4 = resetConnections p w3
      in w4\<lparr>chanGroups := (chanGroups w4)(p := (chanGroups w4 p)\<lparr>cur_value := v\<rparr>)\<rparr>)"

text \<open>
  \<^verbatim>\<open>run\<close>: one turn of the loop takes the case that \<^verbatim>\<open>select\<close> chose. The loop returns
  when the parent scope is done and otherwise waits for the next case.
\<close>

datatype select_case = ParentDone | Recv string

datatype loop_status = Returned | Waiting

definition run_turn :: "nat \<Rightarrow> select_case \<Rightarrow> world \<Rightarrow> loop_status \<times> world" where
  "run_turn p sc w =
     (case sc of
        ParentDone \<Rightarrow>
          (Returned, emit (EvLog ''cancelling chanGroup context'')
                       (emit (EvCancel (cancel (chanGroups w p))) w))
      | Recv v \<Rightarrow>
          if v = cur_value (chanGroups w p) then (Waiting, w)
          else (Waiting, emit (EvLog ''connection information changed'') (valueChanged p v w)))"

fun run :: "nat \<Rightarrow> select_case list \<Rightarrow> world \<Rightarrow> loop_status \<times> world" where
  "run p [] w = (Waiting, w)"
| "run p (sc # scs) w =
     (case run_turn p sc w of
        (Returned, w') \<Rightarrow> (Returned, w')
      | (Waiting, w') \<Rightarrow> run p scs w')"

definition mergeConnectionStringOptions ::
  "net_url \<Rightarrow> string \<Rightarrow> (string \<times> string) list \<Rightarrow> string \<times> error option" where
  "mergeConnectionStringOptions U dsn opts =
     (if length opts = 0 then (dsn, None)
      else
        (case ParseRequestURI U dsn of
           Inl err \<Rightarrow>
             ('''', Some (Errorf ''unable to parse connection string when specifying extra driver options: %v'' err))
         | Inr u \<Rightarrow>
             (case ParseQuery U (RawQuery u) of
                (vs, Some err) \<Rightarrow>
                  ('''', Some (Errorf ''unable to parse query options in connection string when specifying extra driver options: %v'' err))
              | (vs, None) \<Rightarrow>
                  (let vs' = fold (\<lambda>(k, v) vs. Values_Set vs k v) opts vs
                   in (URL_String U (u\<lparr>RawQuery := Encode U vs'\<rparr>), None)))))"

definition chanGroup_Open ::
  "net_url \<Rightarrow> nat \<Rightarrow> world \<Rightarrow> (Conn_value option \<times> error option) \<times> world" where
  "chanGroup_Open U p w =
     (let cg = chanGroups w p in
      case mergeConnectionStringOptions U (cur_value cg) (options (sqlDriver cg)) of
        (dsn, Some err) \<Rightarrow> ((None, Some err), w)
      | (dsn, None) \<Rightarrow>
          (case driver (sqlDriver cg) (trace w) dsn of
             (conn, Some err) \<Rightarrow> ((map_option RawConn conn, Some err), emit (EvDriverOpen dsn) w)
           | (conn, None) \<Rightarrow>
               (let w1 = emit (EvDriverOpen dsn) w;
                    manConn = next_ptr w1;
                    w2 = w1\<lparr>managedConns := (managedConns w1)(manConn := newManagedConn (ctx cg) conn p),
                            next_ptr := Suc manConn\<rparr>;
                    w3 = w2\<lparr>chanGroups := (chanGroups w2)
                              (p := (chanGroups w2 p)\<lparr>conns := conns (chanGroups w2 p) @ [manConn]\<rparr>)\<rparr>
                in ((Some (ManagedConn manConn), None), w3))))"

text \<open>
  \<^verbatim>\<open>parseValues\<close>: \<^verbatim>\<open>v[0]\<close> panics on an empty slice, which is the \<open>Some\<close> message.
\<close>

definition parseValues :: "nat \<Rightarrow> url_Values \<Rightarrow> world \<Rightarrow> string option \<times> world" where
  "parseValues p vs w =
     (let w1 = emit (EvLogValues ''parsing values'' vs) w in
      case map_of vs forceKill_key of
        None \<Rightarrow> (None, w1)
      | Some [] \<Rightarrow> (Some ''index out of range [0] with length 0'', w1)
      | Some (firstValue # rest) \<Rightarrow>
          (None, emit (EvLog ''forceKill set to true'')
             (w1\<lparr>chanGroups := (chanGroups w1)(p := (chanGroups w1 p)\<lparr>forceKill := (firstValue = ''true'')\<rparr>)\<rparr>)))"

section \<open>The dispatcher\<close>

datatype 'a outcome = Panic string | Return 'a

definition hdriver_Open ::
  "net_url \<Rightarrow> string \<Rightarrow> world \<Rightarrow> (Conn_value option \<times> error option) outcome \<times> world" where
  "hdriver_Open U name w =
     (case Parse U name of
        Inl err \<Rightarrow> (Return (None, Some (UrlError err)), w)
      | Inr uri \<Rightarrow>
          (case h_cgroup w name of
             Some p \<Rightarrow> (let (r, w') = chanGroup_Open U p w in (Return r, w'))
           | None \<Rightarrow>
               (case strategies w (Scheme uri) of
                  None \<Rightarrow> (Return (None, Some ErrUnsupportedStrategy), w)
                | Some strategy \<Rightarrow>
                    (case sqlDrivers w (Host uri) of
                       None \<Rightarrow> (Return (None, Some ErrUnknownDriver), w)
                     | Some sqlDrv \<Rightarrow>
                         (let queryParams = URL_Query U uri;
                              w1 = emit (EvWatch (Scheme uri) (h_ctx w) (Path uri) queryParams) w
                          in case strategy (trace w) (h_ctx w) (Path uri) queryParams of
                               Inl err \<Rightarrow> (Return (None, Some err), w1)
                             | Inr (val, vals) \<Rightarrow>
                                 (let (c, w2) = WithCancel (h_ctx w1) w1;
                                      p = next_ptr w2;
                                      cgroup = \<lparr>cur_value = val, values_chan = vals, parentCtx = h_ctx w2,
                                                ctx = c, cancel = c, sqlDriver = sqlDrv,
                                                forceKill = False, conns = []\<rparr>;
                                      w3 = w2\<lparr>chanGroups := (chanGroups w2)(p := cgroup),
                                              next_ptr := Suc p\<rparr>
                                  in case parseValues p queryParams w3 of
                                       (Some msg, w4) \<Rightarrow> (Panic msg, w4)
                                     | (None, w4) \<Rightarrow>
                                         (let w5 = w4\<lparr>h_cgroup := (h_cgroup w4)(name \<mapsto> p)\<rparr>;
                                              w6 = emit (EvGo p) w5;
                                              (r, w') = chanGroup_Open U p w6
                                          in (Return r, w'))))))))"

section \<open>Sequences of calls\<close>

text \<open>
  The calls that reach the package in normal operation: the two registrations, the
  dispatcher's \<^verbatim>\<open>Open\<close>, a turn of a monitor's loop, and the close of a wrapper by its
  holder. A registration that panics leaves the package variables as they were.
  (\<^verbatim>\<open>unregisterAll\<close> is for tests and is no such call.)
\<close>

datatype operation =
    OpRegisterSQLDriver string "driver_Driver option" "(driverInstance \<Rightarrow> driverInstance) list"
  | OpRegisterStrategy string "Strategy option"
  | OpOpen string
  | OpRunTurn nat select_case
  | OpClose nat

fun step :: "net_url \<Rightarrow> operation \<Rightarrow> world \<Rightarrow> world" where
  "step U (OpRegisterSQLDriver name drv opts) w =
     (case RegisterSQLDriver name drv opts w of Inl msg \<Rightarrow> w | Inr w' \<Rightarrow> w')"
| "step U (OpRegisterStrategy name strategy) w =
     (case RegisterStrategy name strategy w of Inl msg \<Rightarrow> w | Inr w' \<Rightarrow> w')"
| "step U (OpOpen name) w = snd (hdriver_Open U name w)"
| "step U (OpRunTurn p sc) w = snd (run_turn p sc w)"
| "step U (OpClose c) w = snd (managedConn_Close c w)"

definition steps :: "net_url \<Rightarrow> operation list \<Rightarrow> world \<Rightarrow> world" where
  "steps U ops w = fold (step U) ops w"

section \<open>Reading the trace\<close>

text \<open>The connection strings passed to drivers, and the number of calls of \<^verbatim>\<open>Watch\<close>.\<close>

fun opened :: "event list \<Rightarrow> string list" where
  "opened [] = []"
| "opened (EvDriverOpen dsn # es) = dsn # opened es"
| "opened (e # es) = opened es"

definition watched :: "event list \<Rightarrow> nat" where
  "watched es = length (filter (\<lambda>e. case e of EvWatch s c pth q \<Rightarrow> True | _ \<Rightarrow> False) es)"

section \<open>Reading the state\<close>



section \<open>A sample environment\<close>

text \<open>
  The values of the functions of \<^verbatim>\<open>net/url\<close> at the strings used in the examples below.
  The other strings are not tabulated: the answer written for them is never used, except
  that \<^verbatim>\<open>url.Parse(":")\<close> fails (missing protocol scheme) and that
  \<^verbatim>\<open>url.ParseRequestURI("host=a")\<close> fails (invalid URI for request).
\<close>

definition sample_url :: net_url where
  "sample_url =
     \<lparr>Parse = (\<lambda>s.
        if s = ''strat://d/path''
        then Inr \<lparr>Scheme = ''strat'', Host = ''d'', Path = ''/path'', RawQuery = ''''\<rparr>
        else if s = ''strat://d/path?sslmode=disable''
        then Inr \<lparr>Scheme = ''strat'', Host = ''d'', Path = ''/path'', RawQuery = ''sslmode=disable''\<rparr>
        else if s = ''strat://d/path?forceKill=true''
        then Inr \<lparr>Scheme = ''strat'', Host = ''d'', Path = ''/path'', RawQuery = ''forceKill=true''\<rparr>
        else if s = ''strat://d/plain''
        then Inr \<lparr>Scheme = ''strat'', Host = ''d'', Path = ''/plain'', RawQuery = ''''\<rparr>
        else if s = ''strat://r/path''
        then Inr \<lparr>Scheme = ''strat'', Host = ''r'', Path = ''/path'', RawQuery = ''''\<rparr>
        else if s = ''bad://d/path''
        then Inr \<lparr>Scheme = ''bad'', Host = ''d'', Path = ''/path'', RawQuery = ''''\<rparr>
        else Inl ''missing protocol scheme''),
      ParseRequestURI = (\<lambda>s.
        if s = ''postgres://h/db''
        then Inr \<lparr>Scheme = ''postgres'', Host = ''h'', Path = ''/db'', RawQuery = ''''\<rparr>
        else Inl ''invalid URI for request''),
      ParseQuery = (\<lambda>s.
        if s = ''sslmode=disable'' then ([(''sslmode'', [''disable''])], None)
        else if s = ''forceKill=true'' then ([(''forceKill'', [''true''])], None)
        else ([], None)),
      Encode = (\<lambda>vs.
        if vs = [(''sslmode'', [''disable''])] then ''sslmode=disable'' else ''''),
      URL_String = (\<lambda>u.
        Scheme u @ ''://'' @ Host u @ Path u @ (if RawQuery u = [] then [] else ''?'' @ RawQuery u))\<rparr>"

text \<open>
  A driver that opens a connection on every call (its connections answer \<^verbatim>\<open>Close\<close> with
  an error), a driver that refuses, a strategy that reads \<^verbatim>\<open>host=a\<close> at the path
  \<^verbatim>\<open>/plain\<close> and a URL elsewhere, and a strategy that fails.
\<close>

definition sample_driver :: driver_Driver where
  "sample_driver tr dsn = (Some (Conn (length tr) (Some (Foreign ''close failed''))), None)"

definition refusing_driver :: driver_Driver where
  "refusing_driver tr dsn = (None, Some (Foreign ''connection refused''))"

definition sample_strategy :: Strategy where
  "sample_strategy tr c pth q =
     Inr (if pth = ''/plain'' then ''host=a'' else ''postgres://h/db'', 0)"

definition failing_strategy :: Strategy where
  "failing_strategy tr c pth q = Inl (Foreign ''no such file'')"

definition blank_chanGroup :: chanGroup where
  "blank_chanGroup =
     \<lparr>cur_value = '''', values_chan = 0, parentCtx = 0, ctx = 0, cancel = 0,
      sqlDriver = \<lparr>driver = refusing_driver, options = []\<rparr>, forceKill = False, conns = []\<rparr>"

definition blank_managedConn :: managedConn where
  "blank_managedConn = \<lparr>mc_ctx = 0, mc_conn = None, afterClose = 0, invalidated = False\<rparr>"

text \<open>
  The state after \<^verbatim>\<open>init\<close>, before any registration, and the state after the registration
  of the drivers \<^verbatim>\<open>d\<close> (no options) and \<^verbatim>\<open>r\<close> and of the strategies \<^verbatim>\<open>strat\<close> and
  \<^verbatim>\<open>bad\<close>: no monitor, address 1 free.
\<close>

definition world_init :: world where
  "world_init =
     \<lparr>sqlDrivers = Map.empty, strategies = Map.empty, h_ctx = 0, h_cgroup = Map.empty,
      chanGroups = (\<lambda>a. blank_chanGroup), managedConns = (\<lambda>a. blank_managedConn),
      next_ptr = 1, next_ctx = 1, trace = []\<rparr>"

definition world0 :: world where
  "world0 =
     world_init\<lparr>sqlDrivers := [''d'' \<mapsto> \<lparr>driver = sample_driver, options = []\<rparr>,
                               ''r'' \<mapsto> \<lparr>driver = refusing_driver, options = []\<rparr>],
                strategies := [''strat'' \<mapsto> sample_strategy, ''bad'' \<mapsto> failing_strategy]\<rparr>"

text \<open>The state after \<^verbatim>\<open>Open("strat://r/path")\<close>, which the driver \<^verbatim>\<open>r\<close> refused.\<close>

definition world_r :: world where
  "world_r =
     world0\<lparr>h_cgroup := [''strat://r/path'' \<mapsto> 1],
            chanGroups := (chanGroups world0)
              (1 := \<lparr>cur_value = ''postgres://h/db'', values_chan = 0, parentCtx = 0, ctx = 1,
                     cancel = 1, sqlDriver = \<lparr>driver = refusing_driver, options = []\<rparr>,
                     forceKill = False, conns = []\<rparr>),
            next_ptr := 2, next_ctx := 2,
            trace := [EvWatch ''strat'' 0 ''/path'' [], EvLogValues ''parsing values'' [],
                      EvGo 1, EvDriverOpen ''postgres://h/db'']\<rparr>"

text \<open>
  The state after two calls of \<^verbatim>\<open>Open("strat://d/path")\<close>: one monitor, at address 1,
  with the two connections at the addresses 2 and 3.
\<close>

definition world2 :: world where
  "world2 =
     world0\<lparr>h_cgroup := [''strat://d/path'' \<mapsto> 1],
            chanGroups := (chanGroups world0)
              (1 := \<lparr>cur_value = ''postgres://h/db'', values_chan = 0, parentCtx = 0, ctx = 1,
                     cancel = 1, sqlDriver = \<lparr>driver = sample_driver, options = []\<rparr>,
                     forceKill = False, conns = [2, 3]\<rparr>),
            managedConns := (managedConns world0)
              (2 := newManagedConn 1 (Some (Conn 3 (Some (Foreign ''close failed'')))) 1,
               3 := newManagedConn 1 (Some (Conn 4 (Some (Foreign ''close failed'')))) 1),
            next_ptr := 4, next_ctx := 2,
            trace := [EvWatch ''strat'' 0 ''/path'' [], EvLogValues ''parsing values'' [],
                      EvGo 1, EvDriverOpen ''postgres://h/db'', EvDriverOpen ''postgres://h/db'']\<rparr>"

text \<open>The same after two calls of \<^verbatim>\<open>Open("strat://d/path?forceKill=true")\<close>.\<close>

definition world2k :: world where
  "world2k =
     world0\<lparr>h_cgroup := [''strat://d/path?forceKill=true'' \<mapsto> 1],
            chanGroups := (chanGroups world0)
              (1 := \<lparr>cur_value = ''postgres://h/db'', values_chan = 0, parentCtx = 0, ctx = 1,
                     cancel = 1, sqlDriver = \<lparr>driver = sample_driver, options = []\<rparr>,
                     forceKill = True, conns = [2, 3]\<rparr>),
            managedConns := (managedConns world0)
              (2 := newManagedConn 1 (Some (Conn 4 (Some (Foreign ''close failed'')))) 1,
               3 := newManagedConn 1 (Some (Conn 5 (Some (Foreign ''close failed'')))) 1),
            next_ptr := 4, next_ctx := 2,
            trace := [EvWatch ''strat'' 0 ''/path'' [(''forceKill'', [''true''])],
                      EvLogValues ''parsing values'' [(''forceKill'', [''true''])],
                      EvLog ''forceKill set to true'',
                      EvGo 1, EvDriverOpen ''postgres://h/db'', EvDriverOpen ''postgres://h/db'']\<rparr>"


section \<open>The sample states are reached\<close>

lemma world0_reached:
  "(case RegisterSQLDriver ''d'' (Some sample_driver) [] world_init of
      Inl msg \<Rightarrow> Inl msg
    | Inr w1 \<Rightarrow>
        (case RegisterSQLDriver ''r'' (Some refusing_driver) [] w1 of
           Inl msg \<Rightarrow> Inl msg
         | Inr w2 \<Rightarrow>
             (case RegisterStrategy ''strat'' (Some sample_strategy) w2 of
                Inl msg \<Rightarrow> Inl msg
              | Inr w3 \<Rightarrow> RegisterStrategy ''bad'' (Some failing_strategy) w3)))
   = Inr world0"
  by (simp add: RegisterSQLDriver_def RegisterStrategy_def world_init_def world0_def
      fun_upd_twist)

lemma world_r_reached:
  "hdriver_Open sample_url ''strat://r/path'' world0
     = (Return (None, Some (Foreign ''connection refused'')), world_r)"
  by (simp add: hdriver_Open_def sample_url_def world0_def world_init_def world_r_def
      sample_strategy_def URL_Query_def emit_def WithCancel_def parseValues_def forceKill_key_def
      chanGroup_Open_def mergeConnectionStringOptions_def refusing_driver_def Let_def)

lemma world2_reached:
  "hdriver_Open sample_url ''strat://d/path''
     (snd (hdriver_Open sample_url ''strat://d/path'' world0))
     = (Return (Some (ManagedConn 3), None), world2)"
  by (simp add: hdriver_Open_def sample_url_def world0_def world_init_def world2_def
      sample_strategy_def URL_Query_def emit_def WithCancel_def parseValues_def forceKill_key_def
      chanGroup_Open_def mergeConnectionStringOptions_def sample_driver_def newManagedConn_def
      Let_def fun_upd_twist eval_nat_numeral)

lemma world2k_reached:
  "hdriver_Open sample_url ''strat://d/path?forceKill=true''
     (snd (hdriver_Open sample_url ''strat://d/path?forceKill=true'' world0))
     = (Return (Some (ManagedConn 3), None), world2k)"
  by (simp add: hdriver_Open_def sample_url_def world0_def world_init_def world2k_def
      sample_strategy_def URL_Query_def emit_def WithCancel_def parseValues_def forceKill_key_def
      chanGroup_Open_def mergeConnectionStringOptions_def sample_driver_def newManagedConn_def
      Let_def fun_upd_twist eval_nat_numeral)

section \<open>The update loop\<close>

text \<open>
  C3. A value on the update stream that equals the monitor's current value changes
  nothing: the turn of the loop leaves the whole state as it was (the current value, the
  active scope, every connection, the trace of cancels, closes and log calls), and the loop
  goes on waiting.
\<close>

theorem run_turn_same_value:
  "v = cur_value (chanGroups w p) \<Longrightarrow>
     run_turn p (Recv v) w = (Waiting, w) \<and> run p (Recv v # scs) w = run p scs w"
  by (simp add: run_turn_def)

theorem run_turn_same_value_witness:
  "''postgres://h/db'' = cur_value (chanGroups world2 1) \<and>
   run_turn 1 (Recv ''postgres://h/db'') world2 = (Waiting, world2) \<and>
   run 1 [Recv ''postgres://h/db'', ParentDone] world2 = run 1 [ParentDone] world2"
  using run_turn_same_value [of "''postgres://h/db''" world2 1 "[ParentDone]"]
  by (simp add: world2_def)

section \<open>Errors of the dispatcher\<close>




text \<open>
  C9. When no monitor exists for the address and the strategy's \<^verbatim>\<open>Watch\<close> returns an
  error, \<^verbatim>\<open>hdriver.Open\<close> returns exactly that error; the call of \<^verbatim>\<open>Watch\<close> is all that
  happened: the monitor table, both heaps and the next free address are unchanged, and no
  goroutine was started.
\<close>

theorem hdriver_Open_watch_error:
  assumes "Parse U name = Inr uri"
    and "h_cgroup w name = None"
    and "strategies w (Scheme uri) = Some strategy"
    and "sqlDrivers w (Host uri) = Some sqlDrv"
    and "strategy (trace w) (h_ctx w) (Path uri) (URL_Query U uri) = Inl err"
  shows "hdriver_Open U name w
           = (Return (None, Some err),
              w\<lparr>trace := trace w @ [EvWatch (Scheme uri) (h_ctx w) (Path uri) (URL_Query U uri)]\<rparr>)"
  using assms by (simp add: hdriver_Open_def emit_def)

theorem hdriver_Open_watch_error_witness:
  "Parse sample_url ''bad://d/path''
     = Inr \<lparr>Scheme = ''bad'', Host = ''d'', Path = ''/path'', RawQuery = ''''\<rparr> \<and>
   h_cgroup world0 ''bad://d/path'' = None \<and>
   strategies world0 ''bad'' = Some failing_strategy \<and>
   sqlDrivers world0 ''d'' = Some \<lparr>driver = sample_driver, options = []\<rparr> \<and>
   failing_strategy [] 0 ''/path'' [] = Inl (Foreign ''no such file'') \<and>
   hdriver_Open sample_url ''bad://d/path'' world0
     = (Return (None, Some (Foreign ''no such file'')),
        world0\<lparr>trace := [EvWatch ''bad'' 0 ''/path'' []]\<rparr>)"
  using hdriver_Open_watch_error [of sample_url "''bad://d/path''"
      "\<lparr>Scheme = ''bad'', Host = ''d'', Path = ''/path'', RawQuery = ''''\<rparr>" world0
      failing_strategy "\<lparr>driver = sample_driver, options = []\<rparr>" "Foreign ''no such file''"]
  by (simp add: sample_url_def world0_def world_init_def failing_strategy_def URL_Query_def)

section \<open>Opening a connection through a monitor\<close>

lemma opened_append: "opened (es @ es') = opened es @ opened es'"
  by (induction es rule: opened.induct) simp_all



lemma chanGroup_Open_fields:
  "cur_value (chanGroups (snd (chanGroup_Open U p w)) q) = cur_value (chanGroups w q)"
  "sqlDriver (chanGroups (snd (chanGroup_Open U p w)) q) = sqlDriver (chanGroups w q)"
  "forceKill (chanGroups (snd (chanGroup_Open U p w)) q) = forceKill (chanGroups w q)"
  "h_cgroup (snd (chanGroup_Open U p w)) = h_cgroup w"
  "sqlDrivers (snd (chanGroup_Open U p w)) = sqlDrivers w"
  "strategies (snd (chanGroup_Open U p w)) = strategies w"
  by (simp_all add: chanGroup_Open_def emit_def Let_def split: prod.splits option.splits)





text \<open>
  C10. When the merge succeeds and the bound driver's \<^verbatim>\<open>Open\<close> returns an error,
  \<^verbatim>\<open>chanGroup.Open\<close> returns the driver's connection value and error as they are, and
  the call of the driver is all that happened: no wrapper is allocated and the monitor's
  connections, like the rest of the state, are what they were.
\<close>

theorem chanGroup_Open_driver_error:
  assumes "mergeConnectionStringOptions U (cur_value (chanGroups w p))
             (options (sqlDriver (chanGroups w p))) = (dsn, None)"
    and "driver (sqlDriver (chanGroups w p)) (trace w) dsn = (conn, Some err)"
  shows "chanGroup_Open U p w
           = ((map_option RawConn conn, Some err), w\<lparr>trace := trace w @ [EvDriverOpen dsn]\<rparr>)"
  using assms by (simp add: chanGroup_Open_def emit_def)

theorem chanGroup_Open_driver_error_witness:
  "mergeConnectionStringOptions sample_url (cur_value (chanGroups world_r 1))
     (options (sqlDriver (chanGroups world_r 1))) = (''postgres://h/db'', None) \<and>
   driver (sqlDriver (chanGroups world_r 1)) (trace world_r) ''postgres://h/db''
     = (None, Some (Foreign ''connection refused'')) \<and>
   chanGroup_Open sample_url 1 world_r
     = ((None, Some (Foreign ''connection refused'')),
        world_r\<lparr>trace := trace world_r @ [EvDriverOpen ''postgres://h/db'']\<rparr>)"
  using chanGroup_Open_driver_error [of sample_url world_r 1 "''postgres://h/db''" None
      "Foreign ''connection refused''"]
  by (simp add: world_r_def world0_def world_init_def mergeConnectionStringOptions_def
      refusing_driver_def)





section \<open>What a swap touches\<close>

lemma watched_append: "watched (es @ es') = watched es + watched es'"
  by (simp add: watched_def)

lemma watched_simps:
  "watched [] = 0"
  "watched (EvWatch s c pth q # es) = Suc (watched es)"
  "watched (EvDriverOpen dsn # es) = watched es"
  "watched (EvConnClose a raw # es) = watched es"
  "watched (EvCancel c # es) = watched es"
  "watched (EvGo a # es) = watched es"
  "watched (EvLog msg # es) = watched es"
  "watched (EvLogValues msg q # es) = watched es"
  by (simp_all add: watched_def)

lemma resetConnections_body_frame:
  "sqlDrivers (resetConnections_body p c w) = sqlDrivers w"
  "strategies (resetConnections_body p c w) = strategies w"
  "h_cgroup (resetConnections_body p c w) = h_cgroup w"
  "cur_value (chanGroups (resetConnections_body p c w) q) = cur_value (chanGroups w q)"
  "sqlDriver (chanGroups (resetConnections_body p c w) q) = sqlDriver (chanGroups w q)"
  "forceKill (chanGroups (resetConnections_body p c w) q) = forceKill (chanGroups w q)"
  "ctx (chanGroups (resetConnections_body p c w) q) = ctx (chanGroups w q)"
  "opened (trace (resetConnections_body p c w)) = opened (trace w)"
  "watched (trace (resetConnections_body p c w)) = watched (trace w)"
  by (simp_all add: resetConnections_body_def managedConn_Reset_def managedConn_Close_def
      chanGroup_remove_def emit_def Let_def opened_append watched_append watched_simps)



lemma fold_body_frame:
  "sqlDrivers (fold (resetConnections_body p) cs w) = sqlDrivers w"
  "strategies (fold (resetConnections_body p) cs w) = strategies w"
  "h_cgroup (fold (resetConnections_body p) cs w) = h_cgroup w"
  "cur_value (chanGroups (fold (resetConnections_body p) cs w) q) = cur_value (chanGroups w q)"
  "sqlDriver (chanGroups (fold (resetConnections_body p) cs w) q) = sqlDriver (chanGroups w q)"
  "forceKill (chanGroups (fold (resetConnections_body p) cs w) q) = forceKill (chanGroups w q)"
  "ctx (chanGroups (fold (resetConnections_body p) cs w) q) = ctx (chanGroups w q)"
  "opened (trace (fold (resetConnections_body p) cs w)) = opened (trace w)"
  "watched (trace (fold (resetConnections_body p) cs w)) = watched (trace w)"
  by (induction cs arbitrary: w; simp add: resetConnections_body_frame)+



lemma resetConnections_frame:
  "sqlDrivers (resetConnections p w) = sqlDrivers w"
  "strategies (resetConnections p w) = strategies w"
  "h_cgroup (resetConnections p w) = h_cgroup w"
  "cur_value (chanGroups (resetConnections p w) q) = cur_value (chanGroups w q)"
  "sqlDriver (chanGroups (resetConnections p w) q) = sqlDriver (chanGroups w q)"
  "forceKill (chanGroups (resetConnections p w) q) = forceKill (chanGroups w q)"
  "ctx (chanGroups (resetConnections p w) q) = ctx (chanGroups w q)"
  "opened (trace (resetConnections p w)) = opened (trace w)"
  "watched (trace (resetConnections p w)) = watched (trace w)"
  "conns (chanGroups (resetConnections p w) p) = []"
  by (simp_all add: resetConnections_def Let_def fold_body_frame)



lemma valueChanged_frame:
  "sqlDrivers (valueChanged p v w) = sqlDrivers w"
  "strategies (valueChanged p v w) = strategies w"
  "h_cgroup (valueChanged p v w) = h_cgroup w"
  "sqlDriver (chanGroups (valueChanged p v w) q) = sqlDriver (chanGroups w q)"
  "forceKill (chanGroups (valueChanged p v w) q) = forceKill (chanGroups w q)"
  "opened (trace (valueChanged p v w)) = opened (trace w)"
  "watched (trace (valueChanged p v w)) = watched (trace w)"
  "conns (chanGroups (valueChanged p v w) p) = []"
  "cur_value (chanGroups (valueChanged p v w) p) = v"
  by (simp_all add: valueChanged_def WithCancel_def emit_def Let_def resetConnections_frame
      opened_append watched_append watched_simps)



section \<open>The swap\<close>





section \<open>The dispatcher and its monitor table\<close>




lemma hdriver_Open_registries:
  "sqlDrivers (snd (hdriver_Open U name w)) = sqlDrivers w"
  "strategies (snd (hdriver_Open U name w)) = strategies w"
  by (simp_all add: hdriver_Open_def parseValues_def WithCancel_def emit_def Let_def split_beta
      chanGroup_Open_fields split: sum.splits option.splits list.splits)

lemma run_turn_frame:
  "sqlDrivers (snd (run_turn p sc w)) = sqlDrivers w"
  "strategies (snd (run_turn p sc w)) = strategies w"
  "h_cgroup (snd (run_turn p sc w)) = h_cgroup w"
  by (simp_all add: run_turn_def emit_def valueChanged_frame split: select_case.splits)

lemma managedConn_Close_frame:
  "sqlDrivers (snd (managedConn_Close c w)) = sqlDrivers w"
  "strategies (snd (managedConn_Close c w)) = strategies w"
  "h_cgroup (snd (managedConn_Close c w)) = h_cgroup w"
  by (simp_all add: managedConn_Close_def chanGroup_remove_def emit_def Let_def)























section \<open>The registries are written once per name\<close>

lemma step_registries:
  "sqlDrivers w n = Some e \<Longrightarrow> sqlDrivers (step U opn w) n = Some e"
  "strategies w n = Some s \<Longrightarrow> strategies (step U opn w) n = Some s"
  by (cases opn; auto simp: RegisterSQLDriver_def RegisterStrategy_def hdriver_Open_registries
      run_turn_frame managedConn_Close_frame Let_def split: option.splits)+

lemma steps_sqlDrivers:
  "sqlDrivers w n = Some e \<Longrightarrow> sqlDrivers (steps U ops w) n = Some e"
  unfolding steps_def
  by (induction ops arbitrary: w) (simp_all add: step_registries)

lemma steps_strategies:
  "strategies w n = Some s \<Longrightarrow> strategies (steps U ops w) n = Some s"
  unfolding steps_def
  by (induction ops arbitrary: w) (simp_all add: step_registries)

text \<open>
  C8. \<^verbatim>\<open>RegisterSQLDriver\<close> panics exactly when the driver is nil or the name is already
  registered; otherwise it stores, under the name, the instance built from the driver and
  the options, and changes nothing else. An entry, once stored, is the entry under its name
  after every sequence of calls. \<^verbatim>\<open>RegisterStrategy\<close> does the same for strategies.
\<close>

theorem Register_contract:
  "(isl (RegisterSQLDriver name drv opts w) \<longleftrightarrow> drv = None \<or> sqlDrivers w name \<noteq> None) \<and>
   (\<forall>d. drv = Some d \<longrightarrow> sqlDrivers w name = None \<longrightarrow>
      RegisterSQLDriver name drv opts w
        = Inr (w\<lparr>sqlDrivers := (sqlDrivers w)
                 (name \<mapsto> fold (\<lambda>opt di. opt di) opts \<lparr>driver = d, options = []\<rparr>)\<rparr>)) \<and>
   (\<forall>e. sqlDrivers w name = Some e \<longrightarrow> sqlDrivers (steps U ops w) name = Some e) \<and>
   (isl (RegisterStrategy name strategy w) \<longleftrightarrow> strategy = None \<or> strategies w name \<noteq> None) \<and>
   (\<forall>s. strategy = Some s \<longrightarrow> strategies w name = None \<longrightarrow>
      RegisterStrategy name strategy w = Inr (w\<lparr>strategies := (strategies w)(name \<mapsto> s)\<rparr>)) \<and>
   (\<forall>s. strategies w name = Some s \<longrightarrow> strategies (steps U ops w) name = Some s)"
proof (intro conjI allI impI)
  show "isl (RegisterSQLDriver name drv opts w) \<longleftrightarrow> drv = None \<or> sqlDrivers w name \<noteq> None"
    by (auto simp: RegisterSQLDriver_def Let_def split: option.splits)
  show "isl (RegisterStrategy name strategy w) \<longleftrightarrow> strategy = None \<or> strategies w name \<noteq> None"
    by (auto simp: RegisterStrategy_def split: option.splits)
qed (simp_all add: RegisterSQLDriver_def RegisterStrategy_def steps_sqlDrivers steps_strategies)

theorem Register_contract_witness:
  "isl (RegisterSQLDriver ''d'' None [] world_init) \<and>
   isl (RegisterStrategy ''d'' None world_init) \<and>
   isl (RegisterSQLDriver ''d'' (Some refusing_driver) [] world0) \<and>
   sqlDrivers (steps sample_url
       [OpRegisterSQLDriver ''d'' (Some refusing_driver) [], OpOpen ''strat://d/path''] world0) ''d''
     = Some \<lparr>driver = sample_driver, options = []\<rparr> \<and>
   isl (RegisterStrategy ''strat'' (Some failing_strategy) world0) \<and>
   strategies (steps sample_url
       [OpRegisterStrategy ''strat'' (Some failing_strategy), OpOpen ''strat://d/path''] world0) ''strat''
     = Some sample_strategy \<and>
   RegisterSQLDriver ''o'' (Some sample_driver) [WithDriverOptions [(''sslmode'', ''disable'')]] world0
     = Inr (world0\<lparr>sqlDrivers := (sqlDrivers world0)
              (''o'' \<mapsto> \<lparr>driver = sample_driver, options = [(''sslmode'', ''disable'')]\<rparr>)\<rparr>) \<and>
   RegisterStrategy ''o'' (Some sample_strategy) world0
     = Inr (world0\<lparr>strategies := (strategies world0)(''o'' \<mapsto> sample_strategy)\<rparr>)"
  using Register_contract [where name = "''d''" and drv = None and opts = "[]" and w = world_init
      and U = sample_url and ops = "[]" and strategy = None]
    Register_contract [where name = "''d''" and drv = "Some refusing_driver" and opts = "[]"
      and w = world0 and U = sample_url
      and ops = "[OpRegisterSQLDriver ''d'' (Some refusing_driver) [], OpOpen ''strat://d/path'']"
      and strategy = None]
    Register_contract [where name = "''strat''" and drv = None and opts = "[]"
      and w = world0 and U = sample_url
      and ops = "[OpRegisterStrategy ''strat'' (Some failing_strategy), OpOpen ''strat://d/path'']"
      and strategy = "Some failing_strategy"]
    Register_contract [where name = "''o''" and drv = "Some sample_driver"
      and opts = "[WithDriverOptions [(''sslmode'', ''disable'')]]"
      and w = world0 and U = sample_url and ops = "[]" and strategy = "Some sample_strategy"]
  by (simp add: world0_def world_init_def WithDriverOptions_def)

end
